theory Spec2Isabelle
  imports Main "HOL-Library.Word" "HOL-Library.Multiset"
begin

section \<open>Python values\<close>

text \<open>
  Python \<open>bytes\<close> and \<open>bytearray\<close> are lists of 8-bit words, Python integers are
  \<open>int\<close>, lengths are \<open>nat\<close>. A raised exception is the left summand of the result.
\<close>

type_synonym byte = "8 word"
type_synonym bytes = "byte list"

datatype error =
    ValueError string
  | IndexError
  | AttributeError string
  | TimestampError

text \<open>\<open>str(i)\<close> for an integer, as an f-string field \<open>{i}\<close> renders it.\<close>

fun digits :: "nat \<Rightarrow> string" where
  "digits n =
     (if n < 10 then [''0123456789'' ! n]
      else digits (n div 10) @ [''0123456789'' ! (n mod 10)])"

declare digits.simps [simp del]

definition str_int :: "int \<Rightarrow> string" where
  "str_int i = (if i < 0 then CHR ''-'' # digits (nat (- i)) else digits (nat i))"

text \<open>
  The slice assignment \<open>xs[i:j] = v\<close> on a bytearray with \<open>0 \<le> i\<close> and \<open>0 \<le> j\<close>:
  both bounds are clamped to the length, an upper bound below the lower one is
  raised to it, and the slice is replaced by \<open>v\<close> (the bytearray is resized when
  the lengths differ; nothing is raised).
\<close>

definition setslice :: "'a list \<Rightarrow> nat \<Rightarrow> nat \<Rightarrow> 'a list \<Rightarrow> 'a list" where
  "setslice xs i j v = take i xs @ v @ drop (max i j) xs"

text \<open>\<open>sorted(xs, key=k)\<close>: a stable sort, ascending by key.\<close>

definition sorted_py :: "('a \<Rightarrow> int) \<Rightarrow> 'a list \<Rightarrow> 'a list" where
  "sorted_py k xs = sort_key k xs"


section \<open>The decoded chunk records\<close>

text \<open>
  Modelled from the spec: the generated protobuf module \<open>consensus_service_pb2\<close>
  that declares \<open>ConsensusTopicResponse\<close> is not among the sources. The record
  shape is the one of the specification's external interface (a timestamp of
  seconds and nanoseconds, the payload, the running hash, one sequence number,
  and an optional chunk info of position number, total and an optional initial
  transaction id), under the attribute names of the protobuf schema. The
  interface lists shard, realm, account and valid start for the initial
  transaction id; in the schema the message \<open>TransactionID\<close> declares
  \<open>transactionValidStart\<close>, \<open>accountID\<close>, \<open>scheduled\<close> and \<open>nonce\<close>, and the
  shard, realm and account numbers are fields of the nested \<open>AccountID\<close>. An
  unset sub-message is \<open>None\<close>, so that \<open>HasField\<close> is \<open>\<noteq> None\<close>; reading a scalar
  through an unset sub-message yields the scalar's default, 0.
\<close>

record Timestamp =
  seconds :: int
  nanos :: int

record AccountID =
  shardNum :: int
  realmNum :: int
  accountNum :: int

record TransactionID =
  transactionValidStart :: Timestamp
  accountID :: AccountID
  scheduled :: bool
  nonce :: int

record ConsensusMessageChunkInfo =
  initialTransactionID :: "TransactionID option"
  total :: int
  number :: int

record ConsensusTopicResponse =
  consensusTimestamp :: Timestamp
  message :: bytes
  runningHash :: bytes
  sequenceNumber :: int
  chunkInfo :: "ConsensusMessageChunkInfo option"

text \<open>\<open>r.chunkInfo.number\<close> and \<open>r.chunkInfo.total\<close>, defaulting to 0 when the
  chunk info is unset.\<close>

definition chunkInfo_number :: "ConsensusTopicResponse \<Rightarrow> int" where
  "chunkInfo_number r = (case chunkInfo r of None \<Rightarrow> 0 | Some ci \<Rightarrow> number ci)"

definition chunkInfo_total :: "ConsensusTopicResponse \<Rightarrow> int" where
  "chunkInfo_total r = (case chunkInfo r of None \<Rightarrow> 0 | Some ci \<Rightarrow> total ci)"

text \<open>
  What the code takes from outside its own file, as parameters:
  \<^item> \<open>utcfromtimestamp s n\<close> is \<open>datetime.utcfromtimestamp(s + n / 1e9)\<close>, the
    floating-point sum included. The type \<open>'dt\<close> stands for \<open>datetime\<close>;
    \<open>None\<close> is the exception raised for an instant outside the range of
    \<open>datetime\<close> (\<open>TimestampError\<close> below stands for that \<open>OverflowError\<close>,
    \<open>OSError\<close> or year-out-of-range \<open>ValueError\<close>).
  \<^item> \<open>getattr_sequence_number r\<close> is the read of the attribute
    \<open>sequence_number\<close> of a response, which \<open>of_single\<close> performs where
    \<open>TopicMessageChunk\<close> and \<open>of_many\<close> read the field \<open>sequenceNumber\<close>;
    \<open>None\<close> when the object has no such attribute.
  \<^item> \<open>getattr_TransactionID name tx_id\<close> is the read of the attribute \<open>name\<close>
    of an initial transaction id, for the names \<open>shardNum\<close>, \<open>realmNum\<close> and
    \<open>accountNum\<close> that both constructors read on the transaction id itself;
    \<open>None\<close> when the object has no such attribute.
  \<^item> \<open>datetime_str d\<close> is \<open>str(d)\<close> of a \<open>datetime\<close>.
\<close>

record 'dt runtime =
  utcfromtimestamp :: "int \<Rightarrow> int \<Rightarrow> 'dt option"
  getattr_sequence_number :: "ConsensusTopicResponse \<Rightarrow> int option"
  getattr_TransactionID :: "string \<Rightarrow> TransactionID \<Rightarrow> int option"
  datetime_str :: "'dt \<Rightarrow> string"

text \<open>
  A protobuf message object has its declared fields as attributes and no others:
  the response declares \<open>sequenceNumber\<close>, so reading \<open>sequence_number\<close> raises
  \<open>AttributeError\<close>; the transaction id declares \<open>accountID\<close>, so reading
  \<open>shardNum\<close>, \<open>realmNum\<close> or \<open>accountNum\<close> on it raises \<open>AttributeError\<close>.
\<close>

definition protobuf_getattr_sequence_number :: "ConsensusTopicResponse \<Rightarrow> int option" where
  "protobuf_getattr_sequence_number r = None"

definition protobuf_getattr_TransactionID :: "string \<Rightarrow> TransactionID \<Rightarrow> int option" where
  "protobuf_getattr_TransactionID name tx_id = None"

definition to_datetime :: "'dt runtime \<Rightarrow> Timestamp \<Rightarrow> error + 'dt" where
  "to_datetime rt ts_proto =
     (case utcfromtimestamp rt (seconds ts_proto) (nanos ts_proto) of
        None \<Rightarrow> Inl TimestampError
      | Some d \<Rightarrow> Inr d)"


section \<open>Chunks and messages\<close>

record 'dt TopicMessageChunk =
  consensus_timestamp :: 'dt
  content_size :: nat
  running_hash :: bytes
  sequence_number :: int

record 'dt TopicMessage =
  consensus_timestamp :: 'dt
  contents :: bytes
  running_hash :: bytes
  sequence_number :: int
  chunks :: "'dt TopicMessageChunk list"
  transaction_id :: "string option"

definition TopicMessageChunk_init ::
  "'dt runtime \<Rightarrow> ConsensusTopicResponse \<Rightarrow> error + 'dt TopicMessageChunk" where
  "TopicMessageChunk_init rt response =
     (case to_datetime rt (consensusTimestamp response) of
        Inl e \<Rightarrow> Inl e
      | Inr ts \<Rightarrow>
          Inr \<lparr> TopicMessageChunk.consensus_timestamp = ts,
                content_size = length (message response),
                TopicMessageChunk.running_hash = runningHash response,
                TopicMessageChunk.sequence_number = sequenceNumber response \<rparr>)"

text \<open>The f-string that both constructors build from an initial transaction id;
  its fields are evaluated from left to right.\<close>

definition format_tx_id :: "'dt runtime \<Rightarrow> TransactionID \<Rightarrow> error + string" where
  "format_tx_id rt tx_id =
     (case getattr_TransactionID rt ''shardNum'' tx_id of
        None \<Rightarrow> Inl (AttributeError ''shardNum'')
      | Some shard \<Rightarrow>
          (case getattr_TransactionID rt ''realmNum'' tx_id of
             None \<Rightarrow> Inl (AttributeError ''realmNum'')
           | Some realm \<Rightarrow>
               (case getattr_TransactionID rt ''accountNum'' tx_id of
                  None \<Rightarrow> Inl (AttributeError ''accountNum'')
                | Some account \<Rightarrow>
                    Inr (str_int shard @ ''.'' @ str_int realm @ ''.'' @
                         str_int account @ ''-'' @
                         str_int (seconds (transactionValidStart tx_id)) @ ''.'' @
                         str_int (nanos (transactionValidStart tx_id))))))"

text \<open>\<open>r.HasField("chunkInfo") and r.chunkInfo.HasField("initialTransactionID")\<close>,
  with the descriptor when both hold.\<close>

definition initial_tx :: "ConsensusTopicResponse \<Rightarrow> TransactionID option" where
  "initial_tx r = (case chunkInfo r of None \<Rightarrow> None | Some ci \<Rightarrow> initialTransactionID ci)"

definition of_single ::
  "'dt runtime \<Rightarrow> ConsensusTopicResponse \<Rightarrow> error + 'dt TopicMessage" where
  "of_single rt response =
     (case TopicMessageChunk_init rt response of
        Inl e \<Rightarrow> Inl e
      | Inr chunk \<Rightarrow>
          (case getattr_sequence_number rt response of
             None \<Rightarrow> Inl (AttributeError ''sequence_number'')
           | Some sequence_number' \<Rightarrow>
               (case (case initial_tx response of
                        None \<Rightarrow> Inr None
                      | Some tx_id \<Rightarrow>
                          (case format_tx_id rt tx_id of
                             Inl e \<Rightarrow> Inl e
                           | Inr s \<Rightarrow> Inr (Some s))) of
                  Inl e \<Rightarrow> Inl e
                | Inr tid \<Rightarrow>
                    Inr \<lparr> TopicMessage.consensus_timestamp =
                            TopicMessageChunk.consensus_timestamp chunk,
                          contents = message response,
                          TopicMessage.running_hash = runningHash response,
                          TopicMessage.sequence_number = sequence_number',
                          chunks = [chunk],
                          transaction_id = tid \<rparr>)))"

text \<open>The first loop of \<open>of_many\<close>: the chunk list, the total size and the
  transaction id, threaded through the sorted responses.\<close>

fun collect ::
  "'dt runtime \<Rightarrow> ConsensusTopicResponse list \<Rightarrow>
   'dt TopicMessageChunk list \<Rightarrow> nat \<Rightarrow> string option \<Rightarrow>
   error + ('dt TopicMessageChunk list \<times> nat \<times> string option)" where
  "collect rt [] chunks' total_size tid = Inr (chunks', total_size, tid)"
| "collect rt (r # rs) chunks' total_size tid =
     (case TopicMessageChunk_init rt r of
        Inl e \<Rightarrow> Inl e
      | Inr c \<Rightarrow>
          (if tid = None \<and> initial_tx r \<noteq> None
           then (case format_tx_id rt (the (initial_tx r)) of
                   Inl e \<Rightarrow> Inl e
                 | Inr s \<Rightarrow>
                     collect rt rs (chunks' @ [c]) (total_size + length (message r))
                       (Some s))
           else collect rt rs (chunks' @ [c]) (total_size + length (message r)) tid))"

text \<open>The second loop: each payload written at its offset into the buffer.\<close>

fun fill :: "ConsensusTopicResponse list \<Rightarrow> bytes \<Rightarrow> nat \<Rightarrow> bytes" where
  "fill [] buf offset = buf"
| "fill (r # rs) buf offset =
     (let end = offset + length (message r)
      in fill rs (setslice buf offset end (message r)) end)"

definition of_many ::
  "'dt runtime \<Rightarrow> ConsensusTopicResponse list \<Rightarrow> error + 'dt TopicMessage" where
  "of_many rt responses =
     (let sorted_responses = sorted_py chunkInfo_number responses in
      case collect rt sorted_responses [] 0 None of
        Inl e \<Rightarrow> Inl e
      | Inr (chunks', total_size, tid) \<Rightarrow>
          (let buf = fill sorted_responses (replicate total_size 0) 0 in
           if sorted_responses = [] then Inl IndexError
           else
             (let last_r = last sorted_responses in
              case to_datetime rt (consensusTimestamp last_r) of
                Inl e \<Rightarrow> Inl e
              | Inr ts \<Rightarrow>
                  Inr \<lparr> TopicMessage.consensus_timestamp = ts,
                        contents = buf,
                        TopicMessage.running_hash = runningHash last_r,
                        TopicMessage.sequence_number = sequenceNumber last_r,
                        chunks = chunks',
                        transaction_id = tid \<rparr>)))"


section \<open>The factory\<close>

text \<open>The argument of \<open>from_proto\<close>: one response (the \<open>isinstance\<close> test holds)
  or a list of them.\<close>

datatype input = Single ConsensusTopicResponse | Many "ConsensusTopicResponse list"

definition from_proto :: "'dt runtime \<Rightarrow> input \<Rightarrow> bool \<Rightarrow> error + 'dt TopicMessage" where
  "from_proto rt response_or_responses chunking_enabled =
     (case response_or_responses of
        Single response \<Rightarrow>
          if chunking_enabled \<and> chunkInfo response \<noteq> None \<and> chunkInfo_total response > 1
          then Inl (ValueError
            ''Cannot handle multi-chunk in a single response. Pass all chunk responses in a list.'')
          else of_single rt response
      | Many responses \<Rightarrow>
          if responses = []
          then Inl (ValueError ''Empty response list provided to from_proto().'')
          else if \<not> chunking_enabled \<and> length responses = 1
          then of_single rt (responses ! 0)
          else of_many rt responses)"

text \<open>The branch \<open>from_proto\<close> takes, by the same tests in the same order: which
  error it raises itself, or which constructor it calls on which argument.\<close>

datatype route =
    Raise_ambiguous
  | Raise_empty
  | Call_of_single ConsensusTopicResponse
  | Call_of_many "ConsensusTopicResponse list"

definition from_proto_route :: "input \<Rightarrow> bool \<Rightarrow> route" where
  "from_proto_route response_or_responses chunking_enabled =
     (case response_or_responses of
        Single response \<Rightarrow>
          if chunking_enabled \<and> chunkInfo response \<noteq> None \<and> chunkInfo_total response > 1
          then Raise_ambiguous
          else Call_of_single response
      | Many responses \<Rightarrow>
          if responses = [] then Raise_empty
          else if \<not> chunking_enabled \<and> length responses = 1
          then Call_of_single (responses ! 0)
          else Call_of_many responses)"

definition run_route :: "'dt runtime \<Rightarrow> route \<Rightarrow> error + 'dt TopicMessage" where
  "run_route rt ro =
     (case ro of
        Raise_ambiguous \<Rightarrow> Inl (ValueError
          ''Cannot handle multi-chunk in a single response. Pass all chunk responses in a list.'')
      | Raise_empty \<Rightarrow> Inl (ValueError ''Empty response list provided to from_proto().'')
      | Call_of_single r \<Rightarrow> of_single rt r
      | Call_of_many rs \<Rightarrow> of_many rt rs)"


section \<open>The debug rendering\<close>

text \<open>
  A Python \<open>str\<close> is a list of code points. \<open>ascii\<close> embeds the text of a
  literal or of a formatted integer.
\<close>

type_synonym str = "nat list"

definition ascii :: "string \<Rightarrow> str" where
  "ascii s = map of_char s"

text \<open>
  \<open>bs.decode("utf-8", errors="replace")\<close>: every maximal ill-formed part of the
  input becomes one U+FFFD, well-formed sequences become their code point.
  A continuation byte is \<open>80..BF\<close>; the byte after \<open>E0\<close> must be \<open>A0..BF\<close>, after
  \<open>ED\<close> \<open>80..9F\<close>, after \<open>F0\<close> \<open>90..BF\<close>, after \<open>F4\<close> \<open>80..8F\<close>.
\<close>

definition is_continuation :: "byte \<Rightarrow> bool" where
  "is_continuation b = (0x80 \<le> b \<and> b \<le> 0xBF)"

definition second_of_three :: "byte \<Rightarrow> byte \<Rightarrow> bool" where
  "second_of_three b0 b1 =
     (is_continuation b1 \<and> \<not> (if b1 < 0xA0 then b0 = 0xE0 else b0 = 0xED))"

definition second_of_four :: "byte \<Rightarrow> byte \<Rightarrow> bool" where
  "second_of_four b0 b1 =
     (is_continuation b1 \<and> \<not> (if b1 < 0x90 then b0 = 0xF0 else b0 = 0xF4))"

fun utf8_decode_replace :: "bytes \<Rightarrow> str" where
  "utf8_decode_replace [] = []"
| "utf8_decode_replace (b0 # bs) =
     (if b0 < 0x80 then unat b0 # utf8_decode_replace bs
      else if b0 < 0xC2 \<or> 0xF4 < b0 then 0xFFFD # utf8_decode_replace bs
      else if b0 < 0xE0 then
        (case bs of
           [] \<Rightarrow> [0xFFFD]
         | b1 # bs1 \<Rightarrow>
             if \<not> is_continuation b1 then 0xFFFD # utf8_decode_replace (b1 # bs1)
             else (unat b0 mod 32 * 64 + unat b1 mod 64) # utf8_decode_replace bs1)
      else if b0 < 0xF0 then
        (case bs of
           [] \<Rightarrow> [0xFFFD]
         | b1 # bs1 \<Rightarrow>
             if \<not> second_of_three b0 b1 then 0xFFFD # utf8_decode_replace (b1 # bs1)
             else
               (case bs1 of
                  [] \<Rightarrow> [0xFFFD]
                | b2 # bs2 \<Rightarrow>
                    if \<not> is_continuation b2 then 0xFFFD # utf8_decode_replace (b2 # bs2)
                    else (unat b0 mod 16 * 4096 + unat b1 mod 64 * 64 + unat b2 mod 64)
                           # utf8_decode_replace bs2))
      else
        (case bs of
           [] \<Rightarrow> [0xFFFD]
         | b1 # bs1 \<Rightarrow>
             if \<not> second_of_four b0 b1 then 0xFFFD # utf8_decode_replace (b1 # bs1)
             else
               (case bs1 of
                  [] \<Rightarrow> [0xFFFD]
                | b2 # bs2 \<Rightarrow>
                    if \<not> is_continuation b2 then 0xFFFD # utf8_decode_replace (b2 # bs2)
                    else
                      (case bs2 of
                         [] \<Rightarrow> [0xFFFD]
                       | b3 # bs3 \<Rightarrow>
                           if \<not> is_continuation b3
                           then 0xFFFD # utf8_decode_replace (b3 # bs3)
                           else (unat b0 mod 8 * 262144 + unat b1 mod 64 * 4096 +
                                 unat b2 mod 64 * 64 + unat b3 mod 64)
                                  # utf8_decode_replace bs3))))"

text \<open>\<open>str(x)\<close> of an optional string, and \<open>__str__\<close>.\<close>

definition str_option :: "string option \<Rightarrow> string" where
  "str_option x = (case x of None \<Rightarrow> ''None'' | Some s \<Rightarrow> s)"

definition TopicMessage_str :: "'dt runtime \<Rightarrow> 'dt TopicMessage \<Rightarrow> str" where
  "TopicMessage_str rt self =
     (let contents_str = utf8_decode_replace (contents self)
      in ascii ''TopicMessage('' @
         ascii ''consensus_timestamp='' @
           ascii (datetime_str rt (TopicMessage.consensus_timestamp self)) @ ascii '', '' @
         ascii ''sequence_number='' @
           ascii (str_int (TopicMessage.sequence_number self)) @ ascii '', '' @
         ascii ''contents='' @ ascii [CHR 0x27] @ take 40 contents_str @
           ascii (if length contents_str > 40 then ''...'' else '''') @
           ascii [CHR 0x27] @ ascii '', '' @
         ascii ''chunk_count='' @ ascii (str_int (int (length (chunks self)))) @ ascii '', '' @
         ascii ''transaction_id='' @ ascii (str_option (transaction_id self)) @
         ascii '')'')"


section \<open>Notions the properties are stated with\<close>

text \<open>Whether the f-string can be built from the initial transaction id of a
  record that carries one.\<close>

definition descriptor_readable :: "'dt runtime \<Rightarrow> ConsensusTopicResponse \<Rightarrow> bool" where
  "descriptor_readable rt r =
     (case initial_tx r of
        None \<Rightarrow> True
      | Some tx_id \<Rightarrow> (case format_tx_id rt tx_id of Inl e \<Rightarrow> False | Inr s \<Rightarrow> True))"

text \<open>A record on which the reads of the constructors succeed: \<open>datetime\<close> can
  represent its timestamp, and its initial transaction id, if it carries one,
  offers the attributes read from it.\<close>

definition well_formed :: "'dt runtime \<Rightarrow> ConsensusTopicResponse \<Rightarrow> bool" where
  "well_formed rt r =
     (utcfromtimestamp rt (seconds (consensusTimestamp r)) (nanos (consensusTimestamp r)) \<noteq> None
      \<and> descriptor_readable rt r)"

text \<open>The formatted descriptor of the first record of a list that carries one.\<close>

definition first_tx_id :: "'dt runtime \<Rightarrow> ConsensusTopicResponse list \<Rightarrow> string option" where
  "first_tx_id rt rs =
     (case List.find (\<lambda>r. initial_tx r \<noteq> None) rs of
        None \<Rightarrow> None
      | Some r \<Rightarrow>
          (case initial_tx r of
             None \<Rightarrow> None
           | Some tx_id \<Rightarrow>
               (case format_tx_id rt tx_id of Inl e \<Rightarrow> None | Inr s \<Rightarrow> Some s)))"

text \<open>The second loop of \<open>of_many\<close> once more, recording whether each slice it
  assigns lies within the buffer as it is at that moment.\<close>

fun writes_in_bounds :: "ConsensusTopicResponse list \<Rightarrow> bytes \<Rightarrow> nat \<Rightarrow> bool" where
  "writes_in_bounds [] buf offset = True"
| "writes_in_bounds (r # rs) buf offset =
     (let end = offset + length (message r)
      in end \<le> length buf \<and>
         writes_in_bounds rs (setslice buf offset end (message r)) end)"


section \<open>Concrete inputs\<close>

text \<open>
  A runtime to evaluate with: the \<open>datetime\<close> is kept as the pair of seconds and
  nanoseconds it was made from, every instant is in range, and the responses are
  protobuf messages.
\<close>

definition protobuf_runtime :: "(int \<times> int) runtime" where
  "protobuf_runtime =
     \<lparr> utcfromtimestamp = (\<lambda>s n. Some (s, n)),
       getattr_sequence_number = protobuf_getattr_sequence_number,
       getattr_TransactionID = protobuf_getattr_TransactionID,
       datetime_str = (\<lambda>d. str_int (fst d) @ ''.'' @ str_int (snd d)) \<rparr>"

text \<open>The same with objects that also offer the attributes the constructors read
  (a test double can): \<open>sequence_number\<close> on a response, holding the value of
  \<open>sequenceNumber\<close>, and the three numbers of the account on the transaction id
  itself.\<close>

definition duck_getattr_TransactionID :: "string \<Rightarrow> TransactionID \<Rightarrow> int option" where
  "duck_getattr_TransactionID name tx_id =
     (if name = ''shardNum'' then Some (shardNum (accountID tx_id))
      else if name = ''realmNum'' then Some (realmNum (accountID tx_id))
      else if name = ''accountNum'' then Some (accountNum (accountID tx_id))
      else None)"

definition duck_runtime :: "(int \<times> int) runtime" where
  "duck_runtime =
     protobuf_runtime
       \<lparr> getattr_sequence_number := (\<lambda>r. Some (sequenceNumber r)),
         getattr_TransactionID := duck_getattr_TransactionID \<rparr>"

text \<open>A response with chunk info: position number, total, payload, sequence number
  (also used for the seconds and the running hash) and optional descriptor.\<close>

definition chunk_response ::
  "int \<Rightarrow> int \<Rightarrow> bytes \<Rightarrow> int \<Rightarrow> TransactionID option \<Rightarrow> ConsensusTopicResponse" where
  "chunk_response n t m s tx =
     \<lparr> consensusTimestamp = \<lparr> seconds = s, nanos = 0 \<rparr>,
       message = m, runningHash = [word_of_int s], sequenceNumber = s,
       chunkInfo = Some \<lparr> initialTransactionID = tx, total = t, number = n \<rparr> \<rparr>"

text \<open>A response without chunk info.\<close>

definition plain_response :: "bytes \<Rightarrow> int \<Rightarrow> ConsensusTopicResponse" where
  "plain_response m s =
     \<lparr> consensusTimestamp = \<lparr> seconds = s, nanos = 0 \<rparr>,
       message = m, runningHash = [word_of_int s], sequenceNumber = s,
       chunkInfo = None \<rparr>"


text \<open>Three chunks arriving in the order 2, 1, 3 and the same chunks in logical order.\<close>

definition abc_arrival :: "ConsensusTopicResponse list" where
  "abc_arrival =
     [chunk_response 2 3 [0x43, 0x44] 12 None, chunk_response 1 3 [0x41, 0x42] 11 None,
      chunk_response 3 3 [0x45, 0x46] 13 None]"

definition abc_logical :: "ConsensusTopicResponse list" where
  "abc_logical =
     [chunk_response 1 3 [0x41, 0x42] 11 None, chunk_response 2 3 [0x43, 0x44] 12 None,
      chunk_response 3 3 [0x45, 0x46] 13 None]"

text \<open>The same chunks with the one of greatest position number arriving first.\<close>

definition max_first_arrival :: "ConsensusTopicResponse list" where
  "max_first_arrival =
     [chunk_response 3 3 [0x45, 0x46] 13 None, chunk_response 1 3 [0x41, 0x42] 11 None,
      chunk_response 2 3 [0x43, 0x44] 12 None]"


text \<open>Two initial transaction ids, and chunk pairs of which the second or both carry one.\<close>

definition tx_a :: TransactionID where
  "tx_a = \<lparr> transactionValidStart = \<lparr> seconds = 100, nanos = 200 \<rparr>,
            accountID = \<lparr> shardNum = 0, realmNum = 0, accountNum = 5 \<rparr>,
            scheduled = False, nonce = 0 \<rparr>"

definition tx_b :: TransactionID where
  "tx_b = \<lparr> transactionValidStart = \<lparr> seconds = 1, nanos = 2 \<rparr>,
            accountID = \<lparr> shardNum = 0, realmNum = 0, accountNum = 7 \<rparr>,
            scheduled = False, nonce = 0 \<rparr>"

definition only_second_carries :: "ConsensusTopicResponse list" where
  "only_second_carries =
     [chunk_response 1 2 [0x41, 0x42] 21 None, chunk_response 2 2 [0x43, 0x44] 22 (Some tx_a)]"

definition both_carry :: "ConsensusTopicResponse list" where
  "both_carry =
     [chunk_response 2 2 [0x43, 0x44] 22 (Some tx_b),
      chunk_response 1 2 [0x41, 0x42] 21 (Some tx_a)]"


text \<open>A single response without chunk info.\<close>

definition lone :: ConsensusTopicResponse where
  "lone = plain_response [0x41, 0x42, 0x43] 7"


text \<open>Four chunks of which three share the position number 0, two of them for lack of
  chunk info.\<close>

definition tied_arrival :: "ConsensusTopicResponse list" where
  "tied_arrival =
     [plain_response [0x43] 31, chunk_response 0 0 [0x41] 32 None, plain_response [0x42] 33,
      chunk_response (-1) 0 [0x44] 34 None]"


text \<open>A single response whose chunk info declares a total of 1.\<close>

definition total_one :: ConsensusTopicResponse where
  "total_one = chunk_response 1 1 [0x41] 5 None"


text \<open>A message whose contents begin with a byte that is not UTF-8, then \<open>C3 A9\<close>, then
  forty letters A.\<close>

definition garbled :: "(int \<times> int) TopicMessage" where
  "garbled =
     \<lparr> TopicMessage.consensus_timestamp = (13, 0),
       contents = 0xFF # 0xC3 # 0xA9 # replicate 40 0x41,
       TopicMessage.running_hash = [13], TopicMessage.sequence_number = 13,
       chunks = [], transaction_id = Some ''0.0.5-100.200'' \<rparr>"


section \<open>The loops of the multi-chunk constructor\<close>

lemma from_proto_run_route:
  "from_proto rt inp chunking_enabled = run_route rt (from_proto_route inp chunking_enabled)"
  by (auto simp: from_proto_def from_proto_route_def run_route_def split: input.splits)

lemma init_well_formed:
  "well_formed rt r \<Longrightarrow> \<exists>c. TopicMessageChunk_init rt r = Inr c"
  by (auto simp: well_formed_def TopicMessageChunk_init_def to_datetime_def split: option.splits)

lemma format_well_formed:
  "well_formed rt r \<Longrightarrow> initial_tx r = Some tx_id \<Longrightarrow> \<exists>s. format_tx_id rt tx_id = Inr s"
  by (auto simp: well_formed_def descriptor_readable_def split: sum.splits)

lemma init_Inr_fields:
  "TopicMessageChunk_init rt r = Inr c \<Longrightarrow>
     to_datetime rt (consensusTimestamp r) = Inr (TopicMessageChunk.consensus_timestamp c) \<and>
     content_size c = length (message r) \<and>
     TopicMessageChunk.running_hash c = runningHash r \<and>
     TopicMessageChunk.sequence_number c = sequenceNumber r"
  by (auto simp: TopicMessageChunk_init_def split: sum.splits)

lemma first_tx_id_Cons:
  "first_tx_id rt (r # rs) =
     (if initial_tx r \<noteq> None
      then (case format_tx_id rt (the (initial_tx r)) of Inl e \<Rightarrow> None | Inr s \<Rightarrow> Some s)
      else first_tx_id rt rs)"
  by (auto simp: first_tx_id_def)

lemma collect_Inr:
  "collect rt rs cs n tid = Inr (cs', n', tid') \<Longrightarrow>
     (\<exists>new. cs' = cs @ new \<and> map (TopicMessageChunk_init rt) rs = map Inr new) \<and>
     n' = n + length (concat (map message rs)) \<and>
     tid' = (if tid = None then first_tx_id rt rs else tid)"
proof (induction rs arbitrary: cs n tid)
  case Nil
  then show ?case by (simp add: first_tx_id_def)
next
  case (Cons r rs)
  then obtain c where c: "TopicMessageChunk_init rt r = Inr c"
    by (auto split: sum.splits)
  show ?case
  proof (cases "tid = None \<and> initial_tx r \<noteq> None")
    case True
    with Cons.prems c obtain s where s: "format_tx_id rt (the (initial_tx r)) = Inr s"
      by (auto split: sum.splits)
    with Cons.prems c True
    have "collect rt rs (cs @ [c]) (n + length (message r)) (Some s) = Inr (cs', n', tid')"
      by simp
    from Cons.IH [OF this] c s True show ?thesis
      by (auto simp: first_tx_id_Cons)
  next
    case False
    with Cons.prems c
    have "collect rt rs (cs @ [c]) (n + length (message r)) tid = Inr (cs', n', tid')"
      by auto
    from Cons.IH [OF this] c False show ?thesis
      by (auto simp: first_tx_id_Cons)
  qed
qed

lemma collect_well_formed:
  "\<forall>r \<in> set rs. well_formed rt r \<Longrightarrow> \<exists>res. collect rt rs cs n tid = Inr res"
proof (induction rs arbitrary: cs n tid)
  case Nil
  then show ?case by simp
next
  case (Cons r rs)
  then obtain c where c: "TopicMessageChunk_init rt r = Inr c"
    using init_well_formed [of rt r] by auto
  show ?case
  proof (cases "tid = None \<and> initial_tx r \<noteq> None")
    case True
    then obtain tx_id where "initial_tx r = Some tx_id" by auto
    with Cons.prems obtain s where "format_tx_id rt (the (initial_tx r)) = Inr s"
      using format_well_formed [of rt r tx_id] by auto
    with Cons c True show ?thesis by simp
  next
    case False
    with Cons c show ?thesis by auto
  qed
qed

lemma format_tx_id_not_IndexError:
  "format_tx_id rt tx_id \<noteq> Inl IndexError"
  by (simp add: format_tx_id_def split: option.splits)

lemma collect_Inl_not_IndexError:
  "collect rt rs cs n tid \<noteq> Inl IndexError"
  by (induction rs arbitrary: cs n tid)
     (auto simp: TopicMessageChunk_init_def to_datetime_def format_tx_id_not_IndexError
           split: sum.splits option.splits)

lemma fill_eq:
  "offset + length (concat (map message rs)) \<le> length buf \<Longrightarrow>
     fill rs buf offset =
       take offset buf @ concat (map message rs) @
       drop (offset + length (concat (map message rs))) buf"
proof (induction rs arbitrary: buf offset)
  case Nil
  then show ?case by simp
next
  case (Cons r rs)
  let ?m = "message r"
  let ?end = "offset + length ?m"
  let ?buf = "setslice buf offset ?end ?m"
  from Cons.prems have len: "length ?buf = length buf" and off: "offset \<le> length buf"
    by (auto simp: setslice_def)
  from Cons.prems len have "?end + length (concat (map message rs)) \<le> length ?buf"
    by simp
  from Cons.IH [OF this] have
    "fill (r # rs) buf offset =
       take ?end ?buf @ concat (map message rs) @
       drop (?end + length (concat (map message rs))) ?buf"
    by (simp add: Let_def)
  moreover from off have "take ?end ?buf = take offset buf @ ?m"
    by (simp add: setslice_def)
  moreover from Cons.prems have
    "drop (?end + length (concat (map message rs))) ?buf =
     drop (offset + length (concat (map message (r # rs)))) buf"
    by (simp add: setslice_def ac_simps)
  ultimately show ?case by simp
qed

lemma fill_replicate:
  "fill rs (replicate (length (concat (map message rs))) 0) 0 = concat (map message rs)"
  by (simp add: fill_eq)


lemma sorted_py_props:
  "set (sorted_py k xs) = set xs"
  "mset (sorted_py k xs) = mset xs"
  "sorted (map k (sorted_py k xs))"
  "length (sorted_py k xs) = length xs"
  "sorted_py k xs = [] \<longleftrightarrow> xs = []"
  by (simp_all add: sorted_py_def) (metis length_0_conv length_sort)

lemma of_many_Inr:
  assumes "of_many rt rs = Inr m"
  shows "rs \<noteq> [] \<and>
         map (TopicMessageChunk_init rt) (sorted_py chunkInfo_number rs) = map Inr (chunks m) \<and>
         contents m = concat (map message (sorted_py chunkInfo_number rs)) \<and>
         transaction_id m = first_tx_id rt (sorted_py chunkInfo_number rs) \<and>
         to_datetime rt (consensusTimestamp (last (sorted_py chunkInfo_number rs))) =
           Inr (TopicMessage.consensus_timestamp m) \<and>
         TopicMessage.running_hash m = runningHash (last (sorted_py chunkInfo_number rs)) \<and>
         TopicMessage.sequence_number m = sequenceNumber (last (sorted_py chunkInfo_number rs))"
proof -
  let ?s = "sorted_py chunkInfo_number rs"
  from assms obtain cs n tid where col: "collect rt ?s [] 0 None = Inr (cs, n, tid)"
    by (auto simp: of_many_def Let_def split: sum.splits)
  from collect_Inr [OF col] have
    cs: "map (TopicMessageChunk_init rt) ?s = map Inr cs" and
    n: "n = length (concat (map message ?s))" and
    tid: "tid = first_tx_id rt ?s"
    by auto
  from assms col have ne: "?s \<noteq> []"
    by (auto simp: of_many_def Let_def split: if_splits)
  from assms col ne obtain ts where
    ts: "to_datetime rt (consensusTimestamp (last ?s)) = Inr ts" and
    m: "m = \<lparr> TopicMessage.consensus_timestamp = ts,
              contents = fill ?s (replicate n 0) 0,
              TopicMessage.running_hash = runningHash (last ?s),
              TopicMessage.sequence_number = sequenceNumber (last ?s),
              chunks = cs, transaction_id = tid \<rparr>"
    by (auto simp: of_many_def Let_def split: sum.splits)
  from ne have "rs \<noteq> []" by (simp add: sorted_py_props)
  with cs n tid ts m show ?thesis
    by (simp add: fill_replicate)
qed

lemma of_many_well_formed:
  assumes "rs \<noteq> []" and "\<forall>r \<in> set rs. well_formed rt r"
  shows "\<exists>m. of_many rt rs = Inr m"
proof -
  let ?s = "sorted_py chunkInfo_number rs"
  from assms have ne: "?s \<noteq> []" and wf: "\<forall>r \<in> set ?s. well_formed rt r"
    by (simp_all add: sorted_py_props)
  from collect_well_formed [OF wf] obtain res where
    "collect rt ?s [] 0 None = Inr res" by blast
  moreover from ne wf have "well_formed rt (last ?s)" by simp
  then obtain ts where "to_datetime rt (consensusTimestamp (last ?s)) = Inr ts"
    by (auto simp: well_formed_def to_datetime_def)
  ultimately show ?thesis using ne
    by (cases res) (auto simp: of_many_def Let_def)
qed

lemma of_many_not_IndexError:
  "rs \<noteq> [] \<Longrightarrow> of_many rt rs \<noteq> Inl IndexError"
  using collect_Inl_not_IndexError [of rt "sorted_py chunkInfo_number rs" "[]" 0 None]
  by (auto simp: of_many_def Let_def sorted_py_props to_datetime_def
           split: sum.splits option.splits)

lemma sorted_py_permutation:
  assumes "mset rs' = mset rs" and "distinct (map k rs)"
  shows "sorted_py k rs' = sorted_py k rs"
proof -
  from assms(2) have "inj_on k (set rs)" by (simp add: distinct_map)
  with assms(1) have "inj_on k (set rs')" by (metis mset_eq_setD)
  moreover from assms(1) have "mset rs' = mset (sort_key k rs)" by simp
  moreover have "sorted (map k (sort_key k rs))" by simp
  ultimately show ?thesis
    unfolding sorted_py_def by (intro sort_key_inj_key_eq)
qed

lemma last_sorted_py_max:
  assumes "r \<in> set rs" and "\<forall>r' \<in> set rs. k r' \<le> k r" and "distinct (map k rs)"
  shows "last (sorted_py k rs) = r"
proof -
  let ?s = "sorted_py k rs"
  from assms(1) have ne: "?s \<noteq> []" by (auto simp: sorted_py_props)
  then have in_s: "last ?s \<in> set rs"
    using last_in_set [OF ne] by (simp add: sorted_py_props)
  from assms(1) obtain i where i: "i < length ?s" "?s ! i = r"
    by (metis in_set_conv_nth sorted_py_props(1))
  have "sorted (map k ?s)" by (simp add: sorted_py_props)
  moreover from i have "i \<le> length ?s - 1" "length ?s - 1 < length (map k ?s)" by simp_all
  ultimately have "map k ?s ! i \<le> map k ?s ! (length ?s - 1)"
    by (rule sorted_nth_mono)
  with i ne have "k r \<le> k (last ?s)"
    by (simp add: last_conv_nth)
  with assms(2) in_s have "k (last ?s) = k r" by force
  with assms(3) in_s assms(1) show ?thesis
    by (auto simp: distinct_map dest: inj_onD)
qed

section \<open>Order independence\<close>

text \<open>
  C1. For a collection of chunk records with pairwise distinct position numbers,
  \<open>of_many\<close> has the same outcome for every permutation of the collection: the
  same message (contents, final consensus timestamp, running hash, sequence
  number, chunks and transaction id), or the same error. If the collection is
  not empty and its records are well formed (each timestamp is representable,
  and each initial transaction id carried offers the attributes read from it),
  the outcome is a message. Three well-formed chunks with position numbers 2, 1,
  3 and payloads \<open>CD\<close>, \<open>AB\<close>, \<open>EF\<close> give the contents \<open>ABCDEF\<close> and three chunks.
\<close>

theorem of_many_order_independent:
  "(distinct (map chunkInfo_number rs) \<longrightarrow> mset rs' = mset rs \<longrightarrow>
      of_many rt rs' = of_many rt rs) \<and>
   (rs \<noteq> [] \<longrightarrow> (\<forall>r \<in> set rs. well_formed rt r) \<longrightarrow>
    distinct (map chunkInfo_number rs) \<longrightarrow> mset rs' = mset rs \<longrightarrow>
      (\<exists>m. of_many rt rs = Inr m \<and> of_many rt rs' = Inr m)) \<and>
   (map chunkInfo_number [r1, r2, r3] = [2, 1, 3] \<longrightarrow>
    map message [r1, r2, r3] = [[0x43, 0x44], [0x41, 0x42], [0x45, 0x46]] \<longrightarrow>
    (\<forall>r \<in> set [r1, r2, r3]. well_formed rt r) \<longrightarrow>
      (\<exists>m. of_many rt [r1, r2, r3] = Inr m \<and>
           contents m = [0x41, 0x42, 0x43, 0x44, 0x45, 0x46] \<and> length (chunks m) = 3))"
proof (intro conjI impI)
  assume d: "distinct (map chunkInfo_number rs)" and p: "mset rs' = mset rs"
  from sorted_py_permutation [OF p d]
  show "of_many rt rs' = of_many rt rs" by (simp add: of_many_def)
next
  assume ne: "rs \<noteq> []" and wf: "\<forall>r \<in> set rs. well_formed rt r"
    and d: "distinct (map chunkInfo_number rs)" and p: "mset rs' = mset rs"
  from of_many_well_formed [OF ne wf] obtain m where m: "of_many rt rs = Inr m" ..
  from sorted_py_permutation [OF p d]
  have "of_many rt rs' = of_many rt rs" by (simp add: of_many_def)
  with m show "\<exists>m. of_many rt rs = Inr m \<and> of_many rt rs' = Inr m" by simp
next
  assume k: "map chunkInfo_number [r1, r2, r3] = [2, 1, 3]"
    and msg: "map message [r1, r2, r3] = [[0x43, 0x44], [0x41, 0x42], [0x45, 0x46]]"
    and wf: "\<forall>r \<in> set [r1, r2, r3]. well_formed rt r"
  from of_many_well_formed [OF _ wf] obtain m where m: "of_many rt [r1, r2, r3] = Inr m"
    by blast
  from k have s: "sorted_py chunkInfo_number [r1, r2, r3] = [r2, r1, r3]"
    by (simp add: sorted_py_def)
  from of_many_Inr [OF m] s msg have "contents m = [0x41, 0x42, 0x43, 0x44, 0x45, 0x46]"
    by simp
  moreover from of_many_Inr [OF m] s have "map Inr (chunks m) = map (TopicMessageChunk_init rt) [r2, r1, r3]"
    by simp
  then have "length (chunks m) = 3"
    by (metis length_map length_Cons list.size(3) numeral_3_eq_3)
  ultimately show "\<exists>m. of_many rt [r1, r2, r3] = Inr m \<and>
           contents m = [0x41, 0x42, 0x43, 0x44, 0x45, 0x46] \<and> length (chunks m) = 3"
    using m by simp
qed

theorem of_many_order_independent_witness:
  "abc_arrival \<noteq> [] \<and> list_all (well_formed protobuf_runtime) abc_arrival \<and>
   distinct (map chunkInfo_number abc_arrival) \<and> mset abc_logical = mset abc_arrival \<and>
   map chunkInfo_number abc_arrival = [2, 1, 3] \<and>
   map message abc_arrival = [[0x43, 0x44], [0x41, 0x42], [0x45, 0x46]] \<and>
   of_many protobuf_runtime abc_logical = of_many protobuf_runtime abc_arrival \<and>
   (\<exists>m. of_many protobuf_runtime abc_arrival = Inr m \<and>
        of_many protobuf_runtime abc_logical = Inr m \<and>
        contents m = [0x41, 0x42, 0x43, 0x44, 0x45, 0x46] \<and> length (chunks m) = 3)"
proof -
  have h: "abc_arrival \<noteq> []" "\<forall>r \<in> set abc_arrival. well_formed protobuf_runtime r"
    "distinct (map chunkInfo_number abc_arrival)" "mset abc_logical = mset abc_arrival"
    "map chunkInfo_number abc_arrival = [2, 1, 3]"
    "map message abc_arrival = [[0x43, 0x44], [0x41, 0x42], [0x45, 0x46]]"
    by (simp_all add: abc_arrival_def abc_logical_def well_formed_def descriptor_readable_def
          initial_tx_def protobuf_runtime_def chunk_response_def chunkInfo_number_def)
  from of_many_order_independent
    [of abc_arrival abc_logical protobuf_runtime
        "chunk_response 2 3 [0x43, 0x44] 12 None" "chunk_response 1 3 [0x41, 0x42] 11 None"
        "chunk_response 3 3 [0x45, 0x46] 13 None"] h
  have eq: "of_many protobuf_runtime abc_logical = of_many protobuf_runtime abc_arrival"
    and "\<exists>m. of_many protobuf_runtime abc_arrival = Inr m \<and>
            contents m = [0x41, 0x42, 0x43, 0x44, 0x45, 0x46] \<and> length (chunks m) = 3"
    by (simp_all add: abc_arrival_def [symmetric])
  then obtain m where "of_many protobuf_runtime abc_arrival = Inr m"
    "contents m = [0x41, 0x42, 0x43, 0x44, 0x45, 0x46]" "length (chunks m) = 3"
    by blast
  with eq have "\<exists>m. of_many protobuf_runtime abc_arrival = Inr m \<and>
        of_many protobuf_runtime abc_logical = Inr m \<and>
        contents m = [0x41, 0x42, 0x43, 0x44, 0x45, 0x46] \<and> length (chunks m) = 3"
    by simp
  with eq h show ?thesis by (simp add: list_all_iff)
qed


section \<open>The empty collection\<close>

text \<open>
  C7. An empty collection passed to \<open>from_proto\<close> is rejected with the
  empty-input \<open>ValueError\<close>, whatever the chunking flag: no message is produced.
\<close>

theorem from_proto_rejects_empty:
  "from_proto rt (Many []) chunking_enabled =
     Inl (ValueError ''Empty response list provided to from_proto().'')"
  by (simp add: from_proto_def)

section \<open>Where the final metadata come from\<close>

text \<open>
  C3. For a non-empty collection of well-formed chunk records (each timestamp is
  representable, and each initial transaction id carried offers the attributes
  read from it) with pairwise distinct position numbers, \<open>of_many\<close> returns a
  message whose consensus timestamp, running hash and sequence number are those
  of the record with the greatest position number, wherever that record stands
  in the input.
\<close>

theorem of_many_metadata_from_max_index:
  assumes "rs \<noteq> []" and "\<forall>r \<in> set rs. well_formed rt r"
    and "distinct (map chunkInfo_number rs)"
  shows "\<exists>m. of_many rt rs = Inr m \<and>
           (\<exists>r \<in> set rs. \<forall>r' \<in> set rs. chunkInfo_number r' \<le> chunkInfo_number r) \<and>
           (\<forall>r \<in> set rs. (\<forall>r' \<in> set rs. chunkInfo_number r' \<le> chunkInfo_number r) \<longrightarrow>
              to_datetime rt (consensusTimestamp r) = Inr (TopicMessage.consensus_timestamp m) \<and>
              TopicMessage.running_hash m = runningHash r \<and>
              TopicMessage.sequence_number m = sequenceNumber r)"
proof -
  from of_many_well_formed [OF assms(1,2)] obtain m where m: "of_many rt rs = Inr m" ..
  let ?s = "sorted_py chunkInfo_number rs"
  have max: "\<exists>r \<in> set rs. \<forall>r' \<in> set rs. chunkInfo_number r' \<le> chunkInfo_number r"
  proof -
    from assms(1) have "finite (chunkInfo_number ` set rs)" "chunkInfo_number ` set rs \<noteq> {}"
      by simp_all
    then have "Max (chunkInfo_number ` set rs) \<in> chunkInfo_number ` set rs"
      by (rule Max_in)
    then obtain r where "r \<in> set rs" "chunkInfo_number r = Max (chunkInfo_number ` set rs)"
      by auto
    then show ?thesis by (intro bexI [of _ r]) auto
  qed
  have "to_datetime rt (consensusTimestamp r) = Inr (TopicMessage.consensus_timestamp m) \<and>
        TopicMessage.running_hash m = runningHash r \<and>
        TopicMessage.sequence_number m = sequenceNumber r"
    if "r \<in> set rs" and "\<forall>r' \<in> set rs. chunkInfo_number r' \<le> chunkInfo_number r" for r
  proof -
    from last_sorted_py_max [OF that assms(3)] have "last ?s = r" .
    with of_many_Inr [OF m] show ?thesis by simp
  qed
  with m max show ?thesis by blast
qed

theorem of_many_metadata_from_max_index_witness:
  "max_first_arrival \<noteq> [] \<and> list_all (well_formed protobuf_runtime) max_first_arrival \<and>
   distinct (map chunkInfo_number max_first_arrival) \<and>
   map chunkInfo_number max_first_arrival = [3, 1, 2] \<and>
   map sequenceNumber max_first_arrival = [13, 11, 12] \<and>
   (\<exists>m. of_many protobuf_runtime max_first_arrival = Inr m \<and>
        TopicMessage.consensus_timestamp m = (13, 0) \<and>
        TopicMessage.running_hash m = [13] \<and> TopicMessage.sequence_number m = 13)"
proof -
  let ?r = "chunk_response 3 3 [0x45, 0x46] 13 None"
  have h: "max_first_arrival \<noteq> []"
    "\<forall>r \<in> set max_first_arrival. well_formed protobuf_runtime r"
    "distinct (map chunkInfo_number max_first_arrival)"
    by (simp_all add: max_first_arrival_def well_formed_def descriptor_readable_def
          initial_tx_def protobuf_runtime_def chunk_response_def chunkInfo_number_def)
  have k: "map chunkInfo_number max_first_arrival = [3, 1, 2]"
    "map sequenceNumber max_first_arrival = [13, 11, 12]"
    by (simp_all add: max_first_arrival_def chunk_response_def chunkInfo_number_def)
  have r: "?r \<in> set max_first_arrival"
    "\<forall>r' \<in> set max_first_arrival. chunkInfo_number r' \<le> chunkInfo_number ?r"
    by (simp_all add: max_first_arrival_def chunk_response_def chunkInfo_number_def)
  have f: "to_datetime protobuf_runtime (consensusTimestamp ?r) = Inr (13, 0)"
    "runningHash ?r = [13]" "sequenceNumber ?r = 13"
    by (simp_all add: chunk_response_def to_datetime_def protobuf_runtime_def)
  from of_many_metadata_from_max_index [OF h]
  obtain m where m: "of_many protobuf_runtime max_first_arrival = Inr m"
    and every: "\<forall>r \<in> set max_first_arrival.
      (\<forall>r' \<in> set max_first_arrival. chunkInfo_number r' \<le> chunkInfo_number r) \<longrightarrow>
        to_datetime protobuf_runtime (consensusTimestamp r) =
          Inr (TopicMessage.consensus_timestamp m) \<and>
        TopicMessage.running_hash m = runningHash r \<and>
        TopicMessage.sequence_number m = sequenceNumber r"
    by blast
  from every r have
    "to_datetime protobuf_runtime (consensusTimestamp ?r) =
       Inr (TopicMessage.consensus_timestamp m) \<and>
     TopicMessage.running_hash m = runningHash ?r \<and>
     TopicMessage.sequence_number m = sequenceNumber ?r"
    by blast
  with f have
    "TopicMessage.consensus_timestamp m = (13, 0) \<and>
     TopicMessage.running_hash m = [13] \<and> TopicMessage.sequence_number m = 13"
    by simp
  with m have "\<exists>m. of_many protobuf_runtime max_first_arrival = Inr m \<and>
        TopicMessage.consensus_timestamp m = (13, 0) \<and>
        TopicMessage.running_hash m = [13] \<and> TopicMessage.sequence_number m = 13"
    by blast
  with h k show ?thesis by (simp add: list_all_iff)
qed

section \<open>The transaction id\<close>

lemma find_sorted_least:
  assumes "sorted (map k xs)" and "List.find P xs = Some x"
  shows "x \<in> set xs \<and> P x \<and> (\<forall>y \<in> set xs. P y \<longrightarrow> k x \<le> k y)"
proof -
  from assms(2) obtain i where i: "i < length xs" "P (xs ! i)" "x = xs ! i"
    "\<forall>j < i. \<not> P (xs ! j)"
    by (auto simp: find_Some_iff)
  have "k x \<le> k y" if "y \<in> set xs" "P y" for y
  proof -
    from that(1) obtain j where j: "j < length xs" "y = xs ! j"
      by (auto simp: in_set_conv_nth)
    with that(2) i(4) have "i \<le> j" by (meson not_le)
    with assms(1) j(1) have "map k xs ! i \<le> map k xs ! j"
      by (simp add: sorted_iff_nth_mono)
    with i j show ?thesis by simp
  qed
  with i show ?thesis by auto
qed

text \<open>
  What the first loop does with the initial transaction ids once the three
  numbers can be read on them: the transaction id of the message is the string
  formatted from a carrying record whose position number is least among the
  carrying ones, and it is absent if no record carries one.
\<close>

lemma of_many_transaction_id_if_attribute:
  assumes "rs \<noteq> []" and "\<forall>r \<in> set rs. well_formed rt r"
  shows "\<exists>m. of_many rt rs = Inr m \<and>
           (if \<exists>r \<in> set rs. initial_tx r \<noteq> None
            then \<exists>r \<in> set rs. \<exists>tx_id.
                   initial_tx r = Some tx_id \<and>
                   (\<forall>r' \<in> set rs. initial_tx r' \<noteq> None \<longrightarrow>
                      chunkInfo_number r \<le> chunkInfo_number r') \<and>
                   (\<exists>s. format_tx_id rt tx_id = Inr s \<and> transaction_id m = Some s)
            else transaction_id m = None)"
proof -
  let ?s = "sorted_py chunkInfo_number rs"
  from of_many_well_formed [OF assms] obtain m where m: "of_many rt rs = Inr m" ..
  from of_many_Inr [OF m] have tid: "transaction_id m = first_tx_id rt ?s" by simp
  show ?thesis
  proof (cases "\<exists>r \<in> set rs. initial_tx r \<noteq> None")
    case False
    then have "List.find (\<lambda>r. initial_tx r \<noteq> None) ?s = None"
      by (simp add: find_None_iff sorted_py_props)
    with tid False m show ?thesis by (simp add: first_tx_id_def)
  next
    case True
    then have "List.find (\<lambda>r. initial_tx r \<noteq> None) ?s \<noteq> None"
      by (auto simp: find_None_iff sorted_py_props)
    then obtain r where f: "List.find (\<lambda>r. initial_tx r \<noteq> None) ?s = Some r" by auto
    have "sorted (map chunkInfo_number ?s)" by (simp add: sorted_py_props)
    from find_sorted_least [OF this f]
    have r: "r \<in> set rs" "initial_tx r \<noteq> None"
      "\<forall>r' \<in> set rs. initial_tx r' \<noteq> None \<longrightarrow> chunkInfo_number r \<le> chunkInfo_number r'"
      by (simp_all add: sorted_py_props)
    from r(2) obtain tx_id where tx: "initial_tx r = Some tx_id" by auto
    from assms(2) r(1) have "well_formed rt r" by simp
    from format_well_formed [OF this tx] obtain s where s: "format_tx_id rt tx_id = Inr s" ..
    with tid f tx have "transaction_id m = Some s"
      by (simp add: first_tx_id_def)
    with True m r tx s show ?thesis by auto
  qed
qed

lemma duck_format_tx_id:
  "format_tx_id duck_runtime tx_id =
     Inr (str_int (shardNum (accountID tx_id)) @ ''.'' @ str_int (realmNum (accountID tx_id)) @
          ''.'' @ str_int (accountNum (accountID tx_id)) @ ''-'' @
          str_int (seconds (transactionValidStart tx_id)) @ ''.'' @
          str_int (nanos (transactionValidStart tx_id)))"
  by (simp add: format_tx_id_def duck_runtime_def duck_getattr_TransactionID_def)

lemma duck_transaction_id:
  "(\<exists>m. of_many duck_runtime only_second_carries = Inr m \<and>
        transaction_id m = Some ''0.0.5-100.200'') \<and>
   (\<exists>m. of_many duck_runtime both_carry = Inr m \<and>
        transaction_id m = Some ''0.0.5-100.200'')"
proof -
  have "utcfromtimestamp duck_runtime = (\<lambda>s n. Some (s, n))"
    by (simp add: duck_runtime_def protobuf_runtime_def)
  then show ?thesis
    by (simp add: of_many_def sorted_py_def only_second_carries_def both_carry_def
          chunk_response_def chunkInfo_number_def initial_tx_def TopicMessageChunk_init_def
          to_datetime_def Let_def setslice_def duck_format_tx_id
          tx_a_def tx_b_def str_int_def digits.simps)
qed

text \<open>
  On a runtime whose transaction ids are protobuf messages the first carrying
  record met stops the loop.
\<close>

lemma protobuf_format_tx_id:
  "getattr_TransactionID rt = protobuf_getattr_TransactionID \<Longrightarrow>
     format_tx_id rt tx_id = Inl (AttributeError ''shardNum'')"
  by (simp add: format_tx_id_def protobuf_getattr_TransactionID_def)

lemma collect_descriptor_raises:
  assumes "getattr_TransactionID rt = protobuf_getattr_TransactionID"
    and "\<forall>r \<in> set rs. \<exists>c. TopicMessageChunk_init rt r = Inr c"
    and "\<exists>r \<in> set rs. initial_tx r \<noteq> None"
  shows "collect rt rs cs n None = Inl (AttributeError ''shardNum'')"
  using assms(2,3)
proof (induction rs arbitrary: cs n)
  case Nil
  then show ?case by simp
next
  case (Cons r rs)
  then obtain c where c: "TopicMessageChunk_init rt r = Inr c" by auto
  show ?case
  proof (cases "initial_tx r = None")
    case True
    with Cons.prems have "\<forall>r \<in> set rs. \<exists>c. TopicMessageChunk_init rt r = Inr c"
      "\<exists>r \<in> set rs. initial_tx r \<noteq> None" by auto
    from Cons.IH [OF this] c True show ?thesis by simp
  next
    case False
    with c protobuf_format_tx_id [OF assms(1)] show ?thesis by simp
  qed
qed

lemma of_many_descriptor_raises:
  assumes "getattr_TransactionID rt = protobuf_getattr_TransactionID"
    and "\<forall>r \<in> set rs.
           utcfromtimestamp rt (seconds (consensusTimestamp r)) (nanos (consensusTimestamp r))
             \<noteq> None"
    and "\<exists>r \<in> set rs. initial_tx r \<noteq> None"
  shows "of_many rt rs = Inl (AttributeError ''shardNum'')"
proof -
  let ?s = "sorted_py chunkInfo_number rs"
  from assms(2) have "\<forall>r \<in> set ?s. \<exists>c. TopicMessageChunk_init rt r = Inr c"
    by (auto simp: sorted_py_props TopicMessageChunk_init_def to_datetime_def
             split: option.splits)
  moreover from assms(3) have "\<exists>r \<in> set ?s. initial_tx r \<noteq> None"
    by (simp add: sorted_py_props)
  ultimately have "collect rt ?s [] 0 None = Inl (AttributeError ''shardNum'')"
    by (rule collect_descriptor_raises [OF assms(1)])
  then show ?thesis by (simp add: of_many_def)
qed

text \<open>
  C4. In the protobuf schema the shard, realm and account numbers of an initial
  transaction id are fields of its \<open>accountID\<close>; \<open>of_many\<close> reads \<open>shardNum\<close>,
  \<open>realmNum\<close> and \<open>accountNum\<close> on the transaction id itself. On protobuf
  records the two chunks of which only the second carries shard 0, realm 0,
  account 5, valid start (100, 200) do not give a message with the transaction
  id \<open>0.0.5-100.200\<close>: the read of \<open>shardNum\<close> raises \<open>AttributeError\<close>, and so it
  does when both chunks carry an initial transaction id.
\<close>

theorem of_many_transaction_id_raises:
  "map initial_tx only_second_carries = [None, Some tx_a] \<and>
   accountID tx_a = \<lparr> shardNum = 0, realmNum = 0, accountNum = 5 \<rparr> \<and>
   transactionValidStart tx_a = \<lparr> seconds = 100, nanos = 200 \<rparr> \<and>
   of_many protobuf_runtime only_second_carries = Inl (AttributeError ''shardNum'') \<and>
   of_many protobuf_runtime both_carry = Inl (AttributeError ''shardNum'')"
  by (simp add: of_many_def sorted_py_def only_second_carries_def both_carry_def
        chunk_response_def chunkInfo_number_def initial_tx_def TopicMessageChunk_init_def
        to_datetime_def protobuf_runtime_def format_tx_id_def
        protobuf_getattr_TransactionID_def tx_a_def tx_b_def)

section \<open>Length conservation\<close>

lemma of_many_content_sizes:
  assumes "of_many rt rs = Inr m"
  shows "map content_size (chunks m) = map (\<lambda>r. length (message r)) (sorted_py chunkInfo_number rs)"
proof -
  let ?s = "sorted_py chunkInfo_number rs"
  from of_many_Inr [OF assms] have eq: "map (TopicMessageChunk_init rt) ?s = map Inr (chunks m)"
    by simp
  then have len: "length (chunks m) = length ?s"
    by (metis length_map)
  show ?thesis
  proof (rule nth_equalityI)
    show "length (map content_size (chunks m)) = length (map (\<lambda>r. length (message r)) ?s)"
      using len by simp
  next
    fix i assume "i < length (map content_size (chunks m))"
    then have i: "i < length ?s" "i < length (chunks m)" using len by simp_all
    from eq have "map (TopicMessageChunk_init rt) ?s ! i = map Inr (chunks m) ! i" by simp
    with i have "TopicMessageChunk_init rt (?s ! i) = Inr (chunks m ! i)" by simp
    from init_Inr_fields [OF this] i
    show "map content_size (chunks m) ! i = map (\<lambda>r. length (message r)) ?s ! i"
      by simp
  qed
qed

text \<open>
  C5. Every message that the single-chunk constructor, the multi-chunk
  constructor or the factory returns has contents as long as the sum of the
  content sizes of its chunks.
\<close>

theorem length_conservation:
  "(of_single rt r = Inr m \<longrightarrow> length (contents m) = sum_list (map content_size (chunks m))) \<and>
   (of_many rt rs = Inr m \<longrightarrow> length (contents m) = sum_list (map content_size (chunks m))) \<and>
   (from_proto rt inp chunking_enabled = Inr m \<longrightarrow>
      length (contents m) = sum_list (map content_size (chunks m)))"
proof -
  have single: "length (contents m) = sum_list (map content_size (chunks m))"
    if "of_single rt r = Inr m" for r
    using that
    by (auto simp: of_single_def TopicMessageChunk_init_def split: sum.splits option.splits)
  have many: "length (contents m) = sum_list (map content_size (chunks m))"
    if "of_many rt rs = Inr m" for rs
  proof -
    from of_many_Inr [OF that]
    have "length (contents m) = sum_list (map length (map message (sorted_py chunkInfo_number rs)))"
      by (simp add: length_concat)
    with of_many_content_sizes [OF that] show ?thesis by (simp add: comp_def)
  qed
  have "length (contents m) = sum_list (map content_size (chunks m))"
    if "from_proto rt inp chunking_enabled = Inr m"
    using that single many
    by (auto simp: from_proto_def split: input.splits if_splits)
  with single many show ?thesis by blast
qed

theorem length_conservation_witness:
  "(\<exists>m. of_single duck_runtime lone = Inr m \<and> length (contents m) = 3 \<and>
        sum_list (map content_size (chunks m)) = 3) \<and>
   (\<exists>m. of_many protobuf_runtime abc_arrival = Inr m \<and>
        from_proto protobuf_runtime (Many abc_arrival) True = Inr m \<and>
        length (contents m) = 6 \<and> sum_list (map content_size (chunks m)) = 6)"
proof -
  obtain m1 where m1: "of_single duck_runtime lone = Inr m1" "length (contents m1) = 3"
    by (simp add: of_single_def lone_def plain_response_def duck_runtime_def protobuf_runtime_def
          TopicMessageChunk_init_def to_datetime_def initial_tx_def)
  have "list_all (well_formed protobuf_runtime) abc_arrival" "abc_arrival \<noteq> []"
    by (simp_all add: abc_arrival_def well_formed_def descriptor_readable_def initial_tx_def protobuf_runtime_def chunk_response_def)
  then obtain m2 where m2: "of_many protobuf_runtime abc_arrival = Inr m2"
    using of_many_well_formed [of abc_arrival protobuf_runtime] by (auto simp: list_all_iff)
  then have fp: "from_proto protobuf_runtime (Many abc_arrival) True = Inr m2"
    by (simp add: from_proto_def abc_arrival_def)
  from of_many_Inr [OF m2] have "length (contents m2) = 6"
    by (simp add: abc_arrival_def sorted_py_def chunk_response_def chunkInfo_number_def)
  with length_conservation [of duck_runtime lone m1]
    length_conservation [of protobuf_runtime _ m2 abc_arrival "Many abc_arrival" True] m1 m2 fp
  show ?thesis by auto
qed

section \<open>The multi-chunk constructor stays in bounds\<close>

lemma writes_in_bounds_fill:
  "offset + length (concat (map message rs)) \<le> length buf \<Longrightarrow> writes_in_bounds rs buf offset"
proof (induction rs arbitrary: buf offset)
  case Nil
  then show ?case by simp
next
  case (Cons r rs)
  let ?end = "offset + length (message r)"
  let ?buf = "setslice buf offset ?end (message r)"
  from Cons.prems have "length ?buf = length buf" by (simp add: setslice_def)
  with Cons.prems have "?end + length (concat (map message rs)) \<le> length ?buf" by simp
  from Cons.IH [OF this] Cons.prems show ?case by (simp add: Let_def)
qed

text \<open>
  C9. \<open>of_many\<close> raises \<open>IndexError\<close> on the empty list, at the read of the last
  sorted response. Every list that \<open>from_proto\<close> passes to \<open>of_many\<close> is
  non-empty, so that read is in bounds and the factory never ends in that
  \<open>IndexError\<close>; and each slice the second loop assigns lies within the
  buffer allocated from the total size, whose length stays that total.
\<close>

theorem from_proto_of_many_in_bounds:
  "of_many rt [] = Inl IndexError \<and>
   (from_proto_route inp chunking_enabled = Call_of_many rs \<longrightarrow>
      rs \<noteq> [] \<and> sorted_py chunkInfo_number rs \<noteq> [] \<and>
      from_proto rt inp chunking_enabled = of_many rt rs \<and>
      of_many rt rs \<noteq> Inl IndexError \<and>
      (\<forall>cs n tid.
         collect rt (sorted_py chunkInfo_number rs) [] 0 None = Inr (cs, n, tid) \<longrightarrow>
           writes_in_bounds (sorted_py chunkInfo_number rs) (replicate n 0) 0 \<and>
           length (fill (sorted_py chunkInfo_number rs) (replicate n 0) 0) = n))"
proof (intro conjI impI allI)
  show "of_many rt [] = Inl IndexError"
    by (simp add: of_many_def sorted_py_def)
next
  assume route: "from_proto_route inp chunking_enabled = Call_of_many rs"
  then show ne: "rs \<noteq> []"
    by (auto simp: from_proto_route_def split: input.splits if_splits)
  then show "sorted_py chunkInfo_number rs \<noteq> []" by (simp add: sorted_py_props)
  from route show "from_proto rt inp chunking_enabled = of_many rt rs"
    by (simp add: from_proto_run_route run_route_def)
  from ne show "of_many rt rs \<noteq> Inl IndexError" by (rule of_many_not_IndexError)
next
  fix cs n tid
  let ?s = "sorted_py chunkInfo_number rs"
  assume "collect rt ?s [] 0 None = Inr (cs, n, tid)"
  from collect_Inr [OF this] have n: "n = length (concat (map message ?s))" by simp
  then show "writes_in_bounds ?s (replicate n 0) 0"
    by (simp add: writes_in_bounds_fill)
  from n show "length (fill ?s (replicate n 0) 0) = n"
    by (simp add: fill_replicate)
qed

theorem from_proto_of_many_in_bounds_witness:
  "from_proto_route (Many abc_arrival) True = Call_of_many abc_arrival \<and>
   abc_arrival \<noteq> [] \<and>
   from_proto protobuf_runtime (Many abc_arrival) True = of_many protobuf_runtime abc_arrival \<and>
   of_many protobuf_runtime abc_arrival \<noteq> Inl IndexError \<and>
   (\<exists>cs tid. collect protobuf_runtime (sorted_py chunkInfo_number abc_arrival) [] 0 None =
        Inr (cs, 6, tid)) \<and>
   writes_in_bounds (sorted_py chunkInfo_number abc_arrival) (replicate 6 0) 0"
proof -
  let ?s = "sorted_py chunkInfo_number abc_arrival"
  have route: "from_proto_route (Many abc_arrival) True = Call_of_many abc_arrival"
    by (simp add: from_proto_route_def abc_arrival_def)
  have "\<forall>r \<in> set ?s. well_formed protobuf_runtime r"
    by (simp add: sorted_py_props abc_arrival_def well_formed_def descriptor_readable_def initial_tx_def protobuf_runtime_def
          chunk_response_def)
  from collect_well_formed [OF this, of "[]" 0 None]
  obtain cs n tid where col: "collect protobuf_runtime ?s [] 0 None = Inr (cs, n, tid)"
    by (metis prod_cases3)
  from collect_Inr [OF col] have "n = length (concat (map message ?s))" by simp
  also have "\<dots> = 6"
    by (simp add: abc_arrival_def sorted_py_def chunk_response_def chunkInfo_number_def)
  finally have n: "n = 6" .
  from from_proto_of_many_in_bounds [of protobuf_runtime "Many abc_arrival" True abc_arrival]
    route col n
  show ?thesis by blast
qed

section \<open>Ties between position numbers\<close>

lemma last_filter_last:
  "xs \<noteq> [] \<Longrightarrow> P (last xs) \<Longrightarrow> last (filter P xs) = last xs"
proof -
  assume "xs \<noteq> []" and p: "P (last xs)"
  then have "xs = butlast xs @ [last xs]" by simp
  then have "filter P xs = filter P (butlast xs) @ filter P [last xs]"
    by (metis filter_append)
  with p show ?thesis by simp
qed

lemma last_sorted_py_Max:
  assumes "rs \<noteq> []"
  shows "k (last (sorted_py k rs)) = Max (k ` set rs)"
proof -
  let ?s = "sorted_py k rs"
  from assms have ne: "?s \<noteq> []" by (simp add: sorted_py_props)
  then have "last ?s \<in> set rs" using last_in_set [OF ne] by (simp add: sorted_py_props)
  then have le: "k (last ?s) \<le> Max (k ` set rs)" by simp
  from assms have "Max (k ` set rs) \<in> k ` set rs" by (intro Max_in) simp_all
  then obtain r where r: "r \<in> set ?s" "k r = Max (k ` set rs)"
    by (auto simp: sorted_py_props)
  then obtain i where i: "i < length ?s" "?s ! i = r" by (auto simp: in_set_conv_nth)
  have "sorted (map k ?s)" by (simp add: sorted_py_props)
  moreover from i have "i \<le> length ?s - 1" "length ?s - 1 < length (map k ?s)" by simp_all
  ultimately have "map k ?s ! i \<le> map k ?s ! (length ?s - 1)" by (rule sorted_nth_mono)
  with i ne r have "Max (k ` set rs) \<le> k (last ?s)" by (simp add: last_conv_nth)
  with le show ?thesis by simp
qed

text \<open>
  C10. A record without chunk info has position number 0. For a non-empty
  collection of well-formed records (each timestamp is representable, and each
  initial transaction id carried offers the attributes read from it), whatever
  ties there are, \<open>of_many\<close> returns a message assembled from a list \<open>s\<close> that is
  sorted by position number and in which the records of each position number
  keep their input order: the contents are the payloads of \<open>s\<close> concatenated,
  the chunks those of \<open>s\<close>, and the final metadata come from the record that
  arrived last among those of the greatest position number.
\<close>

theorem of_many_stable_on_ties:
  assumes "rs \<noteq> []" and "\<forall>r \<in> set rs. well_formed rt r"
  shows "\<exists>m s. of_many rt rs = Inr m \<and>
           mset s = mset rs \<and> sorted (map chunkInfo_number s) \<and>
           (\<forall>k. filter (\<lambda>r. chunkInfo_number r = k) s =
                filter (\<lambda>r. chunkInfo_number r = k) rs) \<and>
           (\<forall>r \<in> set rs. chunkInfo r = None \<longrightarrow> chunkInfo_number r = 0) \<and>
           contents m = concat (map message s) \<and>
           map (TopicMessageChunk_init rt) s = map Inr (chunks m) \<and>
           (let tied = filter (\<lambda>r. chunkInfo_number r = Max (chunkInfo_number ` set rs)) rs
            in tied \<noteq> [] \<and>
               to_datetime rt (consensusTimestamp (last tied)) =
                 Inr (TopicMessage.consensus_timestamp m) \<and>
               TopicMessage.running_hash m = runningHash (last tied) \<and>
               TopicMessage.sequence_number m = sequenceNumber (last tied))"
proof -
  let ?k = chunkInfo_number
  let ?s = "sorted_py ?k rs"
  let ?K = "Max (?k ` set rs)"
  let ?tied = "filter (\<lambda>r. ?k r = ?K) rs"
  from of_many_well_formed [OF assms] obtain m where m: "of_many rt rs = Inr m" ..
  note Inr = of_many_Inr [OF m]
  have stable: "filter (\<lambda>r. ?k r = k) ?s = filter (\<lambda>r. ?k r = k) rs" for k
    by (simp add: sorted_py_def sort_key_stable)
  from assms(1) have ne: "?s \<noteq> []" by (simp add: sorted_py_props)
  have "?k (last ?s) = ?K" by (rule last_sorted_py_Max [OF assms(1)])
  with ne have "last (filter (\<lambda>r. ?k r = ?K) ?s) = last ?s"
    by (intro last_filter_last) simp_all
  with stable have last: "last ?tied = last ?s" by simp
  from assms(1) have "?K \<in> ?k ` set rs" by (intro Max_in) simp_all
  then have tied_ne: "?tied \<noteq> []" by (auto simp: filter_empty_conv)
  have default: "\<forall>r \<in> set rs. chunkInfo r = None \<longrightarrow> ?k r = 0"
    by (simp add: chunkInfo_number_def)
  have "mset ?s = mset rs" "sorted (map ?k ?s)" by (simp_all add: sorted_py_props)
  with m Inr stable last tied_ne default show ?thesis
    by (intro exI [of _ m] exI [of _ ?s]) (simp add: Let_def)
qed

theorem of_many_stable_on_ties_witness:
  "tied_arrival \<noteq> [] \<and> list_all (well_formed protobuf_runtime) tied_arrival \<and>
   map chunkInfo_number tied_arrival = [0, 0, 0, -1] \<and>
   (\<exists>m. of_many protobuf_runtime tied_arrival = Inr m \<and>
        contents m = [0x44, 0x43, 0x41, 0x42] \<and>
        TopicMessage.consensus_timestamp m = (33, 0) \<and>
        TopicMessage.running_hash m = [33] \<and> TopicMessage.sequence_number m = 33)"
proof -
  let ?k = chunkInfo_number
  have h: "tied_arrival \<noteq> []" "\<forall>r \<in> set tied_arrival. well_formed protobuf_runtime r"
    by (simp_all add: tied_arrival_def well_formed_def descriptor_readable_def initial_tx_def protobuf_runtime_def
          chunk_response_def plain_response_def)
  have keys: "map ?k tied_arrival = [0, 0, 0, -1]"
    by (simp add: tied_arrival_def chunkInfo_number_def chunk_response_def plain_response_def)
  then have "?k ` set tied_arrival = {0, -1}"
    by (metis (no_types) list.set_map list.simps(15) empty_set insert_absorb2)
  then have K: "Max (?k ` set tied_arrival) = 0" by simp
  have tied: "filter (\<lambda>r. ?k r = 0) tied_arrival =
      [plain_response [0x43] 31, chunk_response 0 0 [0x41] 32 None, plain_response [0x42] 33]"
    and low: "filter (\<lambda>r. ?k r = -1) tied_arrival = [chunk_response (-1) 0 [0x44] 34 None]"
    by (simp_all add: tied_arrival_def chunkInfo_number_def chunk_response_def plain_response_def)
  from of_many_stable_on_ties [OF h] obtain m s where
    m: "of_many protobuf_runtime tied_arrival = Inr m"
    and s: "mset s = mset tied_arrival" "sorted (map ?k s)"
      "\<forall>k. filter (\<lambda>r. ?k r = k) s = filter (\<lambda>r. ?k r = k) tied_arrival"
    and c: "contents m = concat (map message s)"
    and l: "let tied = filter (\<lambda>r. ?k r = Max (?k ` set tied_arrival)) tied_arrival
            in tied \<noteq> [] \<and>
               to_datetime protobuf_runtime (consensusTimestamp (last tied)) =
                 Inr (TopicMessage.consensus_timestamp m) \<and>
               TopicMessage.running_hash m = runningHash (last tied) \<and>
               TopicMessage.sequence_number m = sequenceNumber (last tied)"
    by blast
  from m have "contents m = concat (map message (sorted_py ?k tied_arrival))"
    using of_many_Inr by blast
  also have "\<dots> = [0x44, 0x43, 0x41, 0x42]"
    by (simp add: tied_arrival_def sorted_py_def chunkInfo_number_def chunk_response_def
          plain_response_def)
  finally have cont: "contents m = [0x44, 0x43, 0x41, 0x42]" .
  from l K tied have
    "TopicMessage.consensus_timestamp m = (33, 0) \<and>
     TopicMessage.running_hash m = [33] \<and> TopicMessage.sequence_number m = 33"
    by (simp add: Let_def plain_response_def to_datetime_def protobuf_runtime_def)
  with m cont h keys show ?thesis by (simp add: list_all_iff)
qed

section \<open>One record, alone or in a list\<close>

text \<open>
  \<open>of_single\<close> reads the attribute \<open>sequence_number\<close>; \<open>TopicMessageChunk\<close> and
  \<open>of_many\<close> read the field \<open>sequenceNumber\<close>. Where the attribute does not
  exist \<open>of_single\<close> raises; were it the field, a one-element list and its
  element would give the same message.
\<close>

lemma of_single_no_attribute:
  "getattr_sequence_number rt r = None \<Longrightarrow> \<exists>e. of_single rt r = Inl e"
  by (simp add: of_single_def split: sum.splits)

lemma of_many_single_if_attribute:
  assumes "getattr_sequence_number rt r = Some (sequenceNumber r)"
  shows "of_many rt [r] = of_single rt r"
proof (cases "TopicMessageChunk_init rt r")
  case (Inl e)
  then show ?thesis by (simp add: of_many_def of_single_def sorted_py_def)
next
  case (Inr c)
  from init_Inr_fields [OF Inr] assms Inr show ?thesis
    by (simp add: of_many_def of_single_def sorted_py_def setslice_def Let_def
          split: option.splits sum.splits)
qed

text \<open>
  C2. On a protobuf response without chunk info the claim fails: the one-element
  list with chunking enabled yields a message, the record passed directly raises
  \<open>AttributeError\<close>, and with chunking disabled both calls raise it.
\<close>

theorem single_chunk_equivalence_broken:
  "chunkInfo lone = None \<and>
   from_proto protobuf_runtime (Many [lone]) True =
     Inr \<lparr> TopicMessage.consensus_timestamp = (7, 0), contents = [0x41, 0x42, 0x43],
           TopicMessage.running_hash = [7], TopicMessage.sequence_number = 7,
           chunks = [\<lparr> TopicMessageChunk.consensus_timestamp = (7, 0), content_size = 3,
                       TopicMessageChunk.running_hash = [7],
                       TopicMessageChunk.sequence_number = 7 \<rparr>],
           transaction_id = None \<rparr> \<and>
   from_proto protobuf_runtime (Single lone) True = Inl (AttributeError ''sequence_number'') \<and>
   from_proto protobuf_runtime (Many [lone]) False = Inl (AttributeError ''sequence_number'') \<and>
   from_proto protobuf_runtime (Single lone) False = Inl (AttributeError ''sequence_number'')"
  by (simp add: from_proto_def of_many_def of_single_def sorted_py_def lone_def
        plain_response_def protobuf_runtime_def protobuf_getattr_sequence_number_def
        TopicMessageChunk_init_def to_datetime_def initial_tx_def setslice_def
        chunkInfo_total_def)

section \<open>A single record with a chunk total\<close>

text \<open>
  \<open>from_proto\<close> rejects a single record with the ambiguous-shape \<open>ValueError\<close>
  exactly when chunking is enabled, the record has chunk info and its total
  exceeds 1; otherwise it calls \<open>of_single\<close>.
\<close>

lemma from_proto_ambiguous_iff:
  "from_proto_route (Single r) chunking_enabled = Raise_ambiguous \<longleftrightarrow>
     chunking_enabled \<and> chunkInfo r \<noteq> None \<and> chunkInfo_total r > 1"
  "from_proto_route (Single r) chunking_enabled \<noteq> Raise_ambiguous \<Longrightarrow>
     from_proto_route (Single r) chunking_enabled = Call_of_single r"
  "from_proto rt (Single r) chunking_enabled =
     Inl (ValueError
        ''Cannot handle multi-chunk in a single response. Pass all chunk responses in a list.'') \<longleftrightarrow>
     chunking_enabled \<and> chunkInfo r \<noteq> None \<and> chunkInfo_total r > 1"
  by (auto simp: from_proto_route_def from_proto_def of_single_def TopicMessageChunk_init_def
        to_datetime_def format_tx_id_def split: sum.splits option.splits)

text \<open>
  C6. On protobuf responses the single-chunk path that is taken then raises
  \<open>AttributeError\<close>, for a record of total 1 with chunking enabled and for a
  record without chunk info with chunking disabled, where the claim says that no
  error is raised.
\<close>

theorem single_path_raises:
  "chunkInfo_total total_one = 1 \<and> well_formed protobuf_runtime total_one \<and>
   from_proto_route (Single total_one) True = Call_of_single total_one \<and>
   from_proto protobuf_runtime (Single total_one) True = Inl (AttributeError ''sequence_number'') \<and>
   from_proto_route (Single lone) False = Call_of_single lone \<and>
   from_proto protobuf_runtime (Single lone) False = Inl (AttributeError ''sequence_number'')"
  by (simp add: from_proto_def from_proto_route_def of_single_def lone_def total_one_def
        plain_response_def chunk_response_def protobuf_runtime_def well_formed_def
        descriptor_readable_def initial_tx_def protobuf_getattr_sequence_number_def TopicMessageChunk_init_def to_datetime_def
        chunkInfo_total_def)

section \<open>The debug rendering of a message\<close>

lemma decode_A: "utf8_decode_replace (replicate n 0x41) = replicate n 65"
  by (induction n) simp_all

lemma decode_garbled:
  "utf8_decode_replace (contents garbled) = 0xFFFD # 233 # replicate 40 65"
  by (simp add: garbled_def decode_A is_continuation_def)

text \<open>The rendering begins with the class name \<open>TopicMessage\<close>, not with \<open>Message\<close>.\<close>

theorem TopicMessage_str_prefix_counterexample:
  "take 8 (TopicMessage_str protobuf_runtime garbled) \<noteq> ascii ''Message('' \<and>
   take 13 (TopicMessage_str protobuf_runtime garbled) = ascii ''TopicMessage(''"
  by (simp add: TopicMessage_str_def Let_def ascii_def)

text \<open>
  C8, amended. The rendering of a message is
  \<open>TopicMessage(consensus_timestamp=\<close>, the string of the timestamp,
  \<open>, sequence_number=\<close>, the sequence number, \<open>, contents='\<close>, the first 40
  characters of the contents decoded as UTF-8, three dots exactly when the decoded
  contents have more than 40 characters, \<open>', chunk_count=\<close>, the number of chunks,
  \<open>, transaction_id=\<close>, the transaction id or \<open>None\<close>, and \<open>)\<close>. Decoding never
  fails: a byte that cannot begin a UTF-8 sequence becomes U+FFFD.
\<close>

theorem TopicMessage_str_shape:
  "(\<exists>shown dots.
      TopicMessage_str rt m =
        ascii ''TopicMessage(consensus_timestamp='' @
        ascii (datetime_str rt (TopicMessage.consensus_timestamp m)) @
        ascii '', sequence_number='' @ ascii (str_int (TopicMessage.sequence_number m)) @
        ascii '', contents='' @ [39] @ shown @ dots @ [39] @
        ascii '', chunk_count='' @ ascii (str_int (int (length (chunks m)))) @
        ascii '', transaction_id='' @
        ascii (case transaction_id m of None \<Rightarrow> ''None'' | Some t \<Rightarrow> t) @ ascii '')'' \<and>
      shown = take 40 (utf8_decode_replace (contents m)) \<and> length shown \<le> 40 \<and>
      dots = (if length (utf8_decode_replace (contents m)) > 40 then ascii ''...'' else [])) \<and>
   (0x80 \<le> b \<and> b < 0xC2 \<or> 0xF4 < b \<longrightarrow>
      utf8_decode_replace (b # bs) = 0xFFFD # utf8_decode_replace bs)"
proof (intro conjI impI)
  show "utf8_decode_replace (b # bs) = 0xFFFD # utf8_decode_replace bs"
    if "0x80 \<le> b \<and> b < 0xC2 \<or> 0xF4 < b"
  proof -
    from that have "\<not> b < 0x80" by (auto simp: word_less_nat_alt word_le_nat_alt)
    moreover from that have "b < 0xC2 \<or> 0xF4 < b" by auto
    ultimately show ?thesis by simp
  qed
  show "\<exists>shown dots.
      TopicMessage_str rt m =
        ascii ''TopicMessage(consensus_timestamp='' @
        ascii (datetime_str rt (TopicMessage.consensus_timestamp m)) @
        ascii '', sequence_number='' @ ascii (str_int (TopicMessage.sequence_number m)) @
        ascii '', contents='' @ [39] @ shown @ dots @ [39] @
        ascii '', chunk_count='' @ ascii (str_int (int (length (chunks m)))) @
        ascii '', transaction_id='' @
        ascii (case transaction_id m of None \<Rightarrow> ''None'' | Some t \<Rightarrow> t) @ ascii '')'' \<and>
      shown = take 40 (utf8_decode_replace (contents m)) \<and> length shown \<le> 40 \<and>
      dots = (if length (utf8_decode_replace (contents m)) > 40 then ascii ''...'' else [])"
    by (simp add: TopicMessage_str_def Let_def ascii_def str_option_def)
qed

theorem TopicMessage_str_shape_witness:
  "TopicMessage_str protobuf_runtime garbled =
     ascii ''TopicMessage(consensus_timestamp=13.0, sequence_number=13, contents='' @
     [39, 0xFFFD, 233] @ replicate 38 65 @ ascii ''...'' @ [39] @
     ascii '', chunk_count=0, transaction_id=0.0.5-100.200)'' \<and>
   utf8_decode_replace (contents garbled) = 0xFFFD # 233 # replicate 40 65"
proof -
  from TopicMessage_str_shape [of protobuf_runtime garbled "0xFF" "[]"]
  obtain shown dots where
    "TopicMessage_str protobuf_runtime garbled =
        ascii ''TopicMessage(consensus_timestamp='' @
        ascii (datetime_str protobuf_runtime (TopicMessage.consensus_timestamp garbled)) @
        ascii '', sequence_number='' @ ascii (str_int (TopicMessage.sequence_number garbled)) @
        ascii '', contents='' @ [39] @ shown @ dots @ [39] @
        ascii '', chunk_count='' @ ascii (str_int (int (length (chunks garbled)))) @
        ascii '', transaction_id='' @
        ascii (case transaction_id garbled of None \<Rightarrow> ''None'' | Some t \<Rightarrow> t) @ ascii '')''"
    "shown = take 40 (utf8_decode_replace (contents garbled))"
    "dots = (if length (utf8_decode_replace (contents garbled)) > 40 then ascii ''...'' else [])"
    by blast
  moreover have "take 40 (utf8_decode_replace (contents garbled)) = [0xFFFD, 233] @ replicate 38 65"
    by (simp add: decode_garbled)
  moreover have "length (utf8_decode_replace (contents garbled)) = 42"
    by (simp add: decode_garbled)
  moreover have "datetime_str protobuf_runtime (TopicMessage.consensus_timestamp garbled) = ''13.0''"
    "str_int (TopicMessage.sequence_number garbled) = ''13''"
    "str_int (int (length (chunks garbled))) = ''0''"
    "transaction_id garbled = Some ''0.0.5-100.200''"
    by (simp_all add: garbled_def protobuf_runtime_def str_int_def digits.simps)
  ultimately show ?thesis
    by (simp add: decode_garbled ascii_def)
qed

end
